theory Spec2Isabelle
  imports Main
begin

section \<open>Access control of pumpkin.py: \<open>pie/acl/__init__.py\<close>\<close>

text \<open>
  The module decides whether the author of a command invocation may run the command.
  \<open>map_member_to_ACLevel\<close> maps a guild member to an access level; \<open>acl2_function\<close>
  combines that level with the per-guild default level of the command and with the
  user, channel and role overwrites stored in the database.

  The embedding follows the source line by line. The database tables are read through
  their \<open>get\<close> class methods only, so they enter the model as lookup functions. Every
  function of the model returns, next to its result, the list of the table lookups it
  performed (and the final level comparison), in execution order: that list is what
  "a stage is consulted" means below.
\<close>

subsection \<open>Data model\<close>

text \<open>
  Modelled from the spec: the enumeration \<open>ACLevel\<close> is declared in \<open>pie/acl/database.py\<close>,
  which is not among the sources. The spec describes it as a totally ordered
  enumeration with \<open>EVERYONE\<close> lowest, the assignable moderator tiers above it, then
  \<open>GUILD_OWNER\<close>, then \<open>BOT_OWNER\<close> highest. The members named by the spec and by the
  source are kept; the relative order of the assignable tiers \<open>VIP\<close>, \<open>SUBMOD\<close>, \<open>MOD\<close> is not
  fixed by either, and no theorem below depends on it.
\<close>

datatype ACLevel = EVERYONE | VIP | SUBMOD | MOD | GUILD_OWNER | BOT_OWNER

text \<open>
  Modelled from the spec: the integer rank that the comparison \<open>member_level >= level\<close>
  of the source works on.
\<close>

fun level_value :: "ACLevel \<Rightarrow> int" where
  "level_value EVERYONE = 0"
| "level_value VIP = 1"
| "level_value SUBMOD = 2"
| "level_value MOD = 3"
| "level_value GUILD_OWNER = 4"
| "level_value BOT_OWNER = 5"

text \<open>
  The parts of the discord objects that matter to the module. It reads the id and the name
  of a role; \<open>role_position\<close> is \<open>role.position\<close>, the place of the role in the hierarchy
  of the guild (higher is more privileged), which the module never reads and the
  specification speaks about.
\<close>

record Role =
  role_id :: int
  role_name :: string
  role_position :: int

record Channel =
  channel_id :: int
  channel_name :: string

text \<open>
  \<open>guild_owner\<close> is \<open>guild.owner\<close>: \<open>None\<close> when the library does not know the member who
  owns the guild, otherwise that member, of whom only the id is read.
\<close>

record Guild =
  guild_id :: int
  guild_owner :: "int option"

text \<open>\<open>roles\<close> is \<open>member.roles\<close>, in the order the library delivers it.\<close>

record Member =
  member_id :: int
  member_guild :: Guild
  roles :: "Role list"

text \<open>
  The attribute \<open>owner_ids\<close> of the bot object, which the source reads with
  \<open>getattr(bot, "owner_ids", {*()})\<close>: the object may lack the attribute, the attribute
  may hold \<open>None\<close>, or it holds a collection of ids.
\<close>

datatype owner_ids_attribute = Attribute_missing | Attribute_None | Attribute_ids "int set"

record Bot =
  owner_ids :: owner_ids_attribute

text \<open>
  The invocation context: \<open>ctx.guild\<close> is \<open>None\<close> in a direct message;
  \<open>qualified_name\<close> is \<open>ctx.command.qualified_name\<close>.
\<close>

record Context =
  ctx_guild :: "Guild option"
  ctx_bot :: Bot
  ctx_author :: Member
  ctx_channel :: Channel
  qualified_name :: string

text \<open>
  The tables of \<open>pie/acl/database.py\<close>, each through its \<open>get\<close> method: the level of the
  mapping or default found, the \<open>allow\<close> flag of the overwrite found, \<open>None\<close> when there
  is no row.
\<close>

record Database =
  ACLevelMappping_get :: "int \<Rightarrow> int \<Rightarrow> ACLevel option"
  ACDefault_get :: "int \<Rightarrow> string \<Rightarrow> ACLevel option"
  UserOverwrite_get :: "int \<Rightarrow> int \<Rightarrow> string \<Rightarrow> bool option"
  ChannelOverwrite_get :: "int \<Rightarrow> int \<Rightarrow> string \<Rightarrow> bool option"
  RoleOverwrite_get :: "int \<Rightarrow> int \<Rightarrow> string \<Rightarrow> bool option"

text \<open>
  The exceptions of \<open>pie.exceptions\<close> that the check raises, with their arguments, and the
  two exceptions of the interpreter that reading the owners can raise: \<open>AttributeError\<close> for
  \<open>member.guild.owner.id\<close> when \<open>guild.owner\<close> is \<open>None\<close>, \<open>TypeError\<close> for
  \<open>member.id in bot_owner_ids\<close> when \<open>bot.owner_ids\<close> is \<open>None\<close>.
\<close>

datatype error =
    NegativeUserOverwrite
  | NegativeChannelOverwrite Channel
  | NegativeRoleOverwrite Role
  | InsufficientACLevel ACLevel ACLevel
  | AttributeError
  | TypeError

text \<open>
  What an evaluation does besides returning: one entry per call of a table's \<open>get\<close>, with
  the arguments of the call, and one for the comparison \<open>member_level >= level\<close> with its
  two operands.
\<close>

datatype step =
    ACLevelMappping_lookup int int
  | ACDefault_lookup int string
  | UserOverwrite_lookup int int string
  | ChannelOverwrite_lookup int int string
  | RoleOverwrite_lookup int int string
  | Level_comparison ACLevel ACLevel

subsection \<open>\<open>map_member_to_ACLevel\<close>\<close>

text \<open>
  The loop \<open>for role in member.roles[::-1]\<close> over the roles still to visit:
  \<open>member_level\<close> starts as \<open>EVERYONE\<close> and the first mapping found ends the loop.
\<close>

fun mapping_loop :: "Database \<Rightarrow> int \<Rightarrow> Role list \<Rightarrow> step list \<times> ACLevel" where
  "mapping_loop db gid [] = ([], EVERYONE)"
| "mapping_loop db gid (role # rest) =
     (case ACLevelMappping_get db gid (role_id role) of
        Some mapping_level \<Rightarrow> ([ACLevelMappping_lookup gid (role_id role)], mapping_level)
      | None \<Rightarrow>
          (let (steps, member_level) = mapping_loop db gid rest
           in (ACLevelMappping_lookup gid (role_id role) # steps, member_level)))"

text \<open>
  The body of the function. The decorator \<open>@ring.lru(expire=10)\<close> that wraps it is not
  part of the model: this is the value a call computes when the cache has no entry.
  \<open>Inr\<close> is the level returned, \<open>Inl\<close> the exception raised. The statements run in the
  order of the source: \<open>getattr\<close> (which cannot fail), then \<open>member.guild.owner.id\<close>, then
  the membership test, then the comparison with the guild owner's id.
\<close>

definition map_member_to_ACLevel ::
  "Database \<Rightarrow> Bot \<Rightarrow> Member \<Rightarrow> step list \<times> (error + ACLevel)" where
  "map_member_to_ACLevel db the_bot member =
     (let bot_owner_ids =
            (case owner_ids the_bot of
               Attribute_missing \<Rightarrow> Some {}
             | Attribute_None \<Rightarrow> None
             | Attribute_ids ids \<Rightarrow> Some ids)
      in case guild_owner (member_guild member) of
           None \<Rightarrow> ([], Inl AttributeError)
         | Some guild_owner_id \<Rightarrow>
             (case bot_owner_ids of
                None \<Rightarrow> ([], Inl TypeError)
              | Some ids \<Rightarrow>
                  (let is_bot_owner = (member_id member \<in> ids);
                       is_guild_owner = (\<not> is_bot_owner \<and> member_id member = guild_owner_id)
                   in if is_bot_owner then ([], Inr BOT_OWNER)
                      else if is_guild_owner then ([], Inr GUILD_OWNER)
                      else
                        (let (steps, member_level) =
                               mapping_loop db (guild_id (member_guild member))
                                 (rev (roles member))
                         in (steps, Inr member_level)))))"

subsection \<open>\<open>acl2_function\<close>\<close>

text \<open>
  The loop \<open>for role in ctx.author.roles\<close>: \<open>Some\<close> of the outcome when a role overwrite
  ends the evaluation, \<open>None\<close> when the loop runs to its end.
\<close>

fun role_loop ::
  "Database \<Rightarrow> int \<Rightarrow> string \<Rightarrow> Role list \<Rightarrow> step list \<times> (error + bool) option" where
  "role_loop db gid command [] = ([], None)"
| "role_loop db gid command (role # rest) =
     (case RoleOverwrite_get db gid (role_id role) command of
        Some allow \<Rightarrow>
          ([RoleOverwrite_lookup gid (role_id role) command],
           Some (if allow then Inr True else Inl (NegativeRoleOverwrite role)))
      | None \<Rightarrow>
          (let (steps, outcome) = role_loop db gid command rest
           in (RoleOverwrite_lookup gid (role_id role) command # steps, outcome)))"

text \<open>
  \<open>if for_command\<close> is false for \<open>None\<close> and for the empty string; in both cases the name
  of the invoked command is used.
\<close>

definition command_name :: "Context \<Rightarrow> string option \<Rightarrow> string" where
  "command_name ctx for_command =
     (case for_command of
        Some c \<Rightarrow> if c \<noteq> [] then c else qualified_name ctx
      | None \<Rightarrow> qualified_name ctx)"

text \<open>
  \<open>Inr True\<close> is \<open>return True\<close>; \<open>Inl e\<close> is \<open>raise e\<close>. An exception raised by
  \<open>map_member_to_ACLevel\<close> is not caught and leaves the function.
\<close>

definition acl2_function ::
  "Database \<Rightarrow> Context \<Rightarrow> ACLevel \<Rightarrow> string option \<Rightarrow> step list \<times> (error + bool)" where
  "acl2_function db ctx level for_command =
     (let command = command_name ctx for_command
      in case ctx_guild ctx of
           None \<Rightarrow> ([], Inr True)
         | Some guild \<Rightarrow>
             (case map_member_to_ACLevel db (ctx_bot ctx) (ctx_author ctx) of
                (steps1, Inl e) \<Rightarrow> (steps1, Inl e)
              | (steps1, Inr member_level) \<Rightarrow>
                 if member_level = BOT_OWNER then (steps1, Inr True)
                 else
                   (let custom_level = ACDefault_get db (guild_id guild) command;
                        steps2 = steps1 @ [ACDefault_lookup (guild_id guild) command];
                        level = (case custom_level of Some l \<Rightarrow> l | None \<Rightarrow> level);
                        uo = UserOverwrite_get db (guild_id guild) (member_id (ctx_author ctx)) command;
                        steps3 = steps2 @
                          [UserOverwrite_lookup (guild_id guild) (member_id (ctx_author ctx)) command]
                    in case uo of
                         Some allow \<Rightarrow>
                           (steps3, if allow then Inr True else Inl NegativeUserOverwrite)
                       | None \<Rightarrow>
                           (let co = ChannelOverwrite_get db (guild_id guild)
                                       (channel_id (ctx_channel ctx)) command;
                                steps4 = steps3 @
                                  [ChannelOverwrite_lookup (guild_id guild)
                                     (channel_id (ctx_channel ctx)) command]
                            in case co of
                                 Some allow \<Rightarrow>
                                   (steps4,
                                    if allow then Inr True
                                    else Inl (NegativeChannelOverwrite (ctx_channel ctx)))
                               | None \<Rightarrow>
                                   (case role_loop db (guild_id guild) command
                                           (roles (ctx_author ctx)) of
                                      (steps5, Some outcome) \<Rightarrow> (steps4 @ steps5, outcome)
                                    | (steps5, None) \<Rightarrow>
                                        (steps4 @ steps5 @ [Level_comparison member_level level],
                                         if level_value member_level \<ge> level_value level
                                         then Inr True
                                         else Inl (InsufficientACLevel level member_level)))))))"

subsection \<open>Vocabulary of the specification\<close>

text \<open>
  The four stages the specification names, and the stage a step belongs to. Resolving the
  member's level and reading the command's default level belong to no stage.
\<close>

datatype stage = User_stage | Channel_stage | Role_stage | Level_stage

fun stage_of :: "step \<Rightarrow> stage option" where
  "stage_of (UserOverwrite_lookup g u c) = Some User_stage"
| "stage_of (ChannelOverwrite_lookup g ch c) = Some Channel_stage"
| "stage_of (RoleOverwrite_lookup g r c) = Some Role_stage"
| "stage_of (Level_comparison a b) = Some Level_stage"
| "stage_of (ACLevelMappping_lookup g r) = None"
| "stage_of (ACDefault_lookup g c) = None"

text \<open>The stages an evaluation went through, in the order it did.\<close>

fun stages_consulted :: "step list \<Rightarrow> stage list" where
  "stages_consulted [] = []"
| "stages_consulted (s # ss) =
     (case stage_of s of None \<Rightarrow> stages_consulted ss | Some t \<Rightarrow> t # stages_consulted ss)"

text \<open>The precedence of the specification: user, channel, role, level.\<close>

fun stage_rank :: "stage \<Rightarrow> nat" where
  "stage_rank User_stage = 0"
| "stage_rank Channel_stage = 1"
| "stage_rank Role_stage = 2"
| "stage_rank Level_stage = 3"

definition has_mapping :: "Database \<Rightarrow> int \<Rightarrow> Role \<Rightarrow> bool" where
  "has_mapping db gid role = (ACLevelMappping_get db gid (role_id role) \<noteq> None)"

definition has_role_overwrite :: "Database \<Rightarrow> int \<Rightarrow> string \<Rightarrow> Role \<Rightarrow> bool" where
  "has_role_overwrite db gid command role =
     (RoleOverwrite_get db gid (role_id role) command \<noteq> None)"

text \<open>The ids of the bot's owners: those of the attribute, none when there is no collection.\<close>

definition bot_owner_ids :: "Bot \<Rightarrow> int set" where
  "bot_owner_ids the_bot = (case owner_ids the_bot of Attribute_ids ids \<Rightarrow> ids | _ \<Rightarrow> {})"

text \<open>
  The two reads of \<open>map_member_to_ACLevel\<close> that can raise do not: the guild has an owner
  member and the bot's \<open>owner_ids\<close> is not \<open>None\<close>.
\<close>

definition owners_readable :: "Bot \<Rightarrow> Member \<Rightarrow> bool" where
  "owners_readable the_bot member =
     (guild_owner (member_guild member) \<noteq> None \<and> owner_ids the_bot \<noteq> Attribute_None)"

text \<open>
  The order of \<open>member.roles\<close>. The library that delivers the list is not among the sources;
  its documentation has the list sorted by position in the hierarchy, lowest first, starting
  with the role \<open>@everyone\<close> of position 0. The theorems that speak about the hierarchy take
  that order as a hypothesis.
\<close>

definition hierarchy_order :: "Role list \<Rightarrow> bool" where
  "hierarchy_order rs = sorted (map role_position rs)"

text \<open>The level the command requires in the guild: its default there, else the declared one.\<close>

definition effective_level :: "Database \<Rightarrow> int \<Rightarrow> string \<Rightarrow> ACLevel \<Rightarrow> ACLevel" where
  "effective_level db gid command level =
     (case ACDefault_get db gid command of Some l \<Rightarrow> l | None \<Rightarrow> level)"


subsection \<open>Example data\<close>

text \<open>
  A guild with its owner (id 100), a bot with one owner (id 1000), a channel, the role
  \<open>@everyone\<close> and three roles \<open>R1\<close> (high), \<open>R2\<close> (mid), \<open>R3\<close> (low). The concrete
  evaluations below run on them, with the roles of a member listed lowest first.
\<close>

definition role_everyone :: Role where
  "role_everyone = \<lparr>role_id = 10, role_name = ''@everyone'', role_position = 0\<rparr>"

definition role_R1 :: Role where
  "role_R1 = \<lparr>role_id = 1, role_name = ''R1'', role_position = 3\<rparr>"

definition role_R2 :: Role where
  "role_R2 = \<lparr>role_id = 2, role_name = ''R2'', role_position = 2\<rparr>"

definition role_R3 :: Role where
  "role_R3 = \<lparr>role_id = 3, role_name = ''R3'', role_position = 1\<rparr>"

definition a_channel :: Channel where
  "a_channel = \<lparr>channel_id = 50, channel_name = ''general''\<rparr>"

definition a_guild :: Guild where
  "a_guild = \<lparr>guild_id = 10, guild_owner = Some 100\<rparr>"

definition a_bot :: Bot where
  "a_bot = \<lparr>owner_ids = Attribute_ids {1000}\<rparr>"

definition member_of :: "int \<Rightarrow> Role list \<Rightarrow> Member" where
  "member_of uid rs = \<lparr>member_id = uid, member_guild = a_guild, roles = rs\<rparr>"

text \<open>The same guild when the library does not know its owner, and a bot whose owners are unset.\<close>

definition ownerless_guild :: Guild where
  "ownerless_guild = \<lparr>guild_id = 10, guild_owner = None\<rparr>"

definition unset_bot :: Bot where
  "unset_bot = \<lparr>owner_ids = Attribute_None\<rparr>"

text \<open>An invocation of the command \<open>repeat\<close> in the channel, in the guild or in a direct message.\<close>

definition invocation :: "Guild option \<Rightarrow> Member \<Rightarrow> Context" where
  "invocation g m =
     \<lparr>ctx_guild = g, ctx_bot = a_bot, ctx_author = m, ctx_channel = a_channel,
      qualified_name = ''repeat''\<rparr>"

text \<open>
  A database of the guild: the level mapped to each role id, the default level of
  \<open>repeat\<close>, and the overwrites of \<open>repeat\<close> for each user id, for the channel and for
  each role id.
\<close>

definition tables ::
  "(int \<Rightarrow> ACLevel option) \<Rightarrow> ACLevel option \<Rightarrow> (int \<Rightarrow> bool option) \<Rightarrow> bool option \<Rightarrow>
   (int \<Rightarrow> bool option) \<Rightarrow> Database" where
  "tables mapping dflt uo co ro =
     \<lparr>ACLevelMappping_get = (\<lambda>g r. if g = 10 then mapping r else None),
      ACDefault_get = (\<lambda>g c. if g = 10 \<and> c = ''repeat'' then dflt else None),
      UserOverwrite_get = (\<lambda>g u c. if g = 10 \<and> c = ''repeat'' then uo u else None),
      ChannelOverwrite_get =
        (\<lambda>g ch c. if g = 10 \<and> ch = 50 \<and> c = ''repeat'' then co else None),
      RoleOverwrite_get = (\<lambda>g r c. if g = 10 \<and> c = ''repeat'' then ro r else None)\<rparr>"

section \<open>The two loops\<close>

lemma stages_consulted_append [simp]:
  "stages_consulted (xs @ ys) = stages_consulted xs @ stages_consulted ys"
  by (induction xs) (auto split: option.splits)

lemma mapping_loop_none:
  "\<forall>r \<in> set rs. ACLevelMappping_get db gid (role_id r) = None \<Longrightarrow>
   mapping_loop db gid rs = (map (\<lambda>r. ACLevelMappping_lookup gid (role_id r)) rs, EVERYONE)"
  by (induction rs) auto

lemma mapping_loop_stages: "stages_consulted (fst (mapping_loop db gid rs)) = []"
  by (induction rs) (auto split: prod.splits option.splits)

lemma role_loop_none:
  "\<forall>r \<in> set rs. RoleOverwrite_get db gid (role_id r) command = None \<Longrightarrow>
   role_loop db gid command rs =
     (map (\<lambda>r. RoleOverwrite_lookup gid (role_id r) command) rs, None)"
  by (induction rs) auto

lemma role_loop_first:
  "\<forall>r \<in> set pre. RoleOverwrite_get db gid (role_id r) command = None \<Longrightarrow>
   RoleOverwrite_get db gid (role_id role) command = Some allow \<Longrightarrow>
   role_loop db gid command (pre @ role # post) =
     (map (\<lambda>r. RoleOverwrite_lookup gid (role_id r) command) (pre @ [role]),
      Some (if allow then Inr True else Inl (NegativeRoleOverwrite role)))"
  by (induction pre) auto

lemma role_loop_find_None:
  "find (has_role_overwrite db gid command) rs = None \<Longrightarrow>
   role_loop db gid command rs =
     (map (\<lambda>r. RoleOverwrite_lookup gid (role_id r) command) rs, None)"
  by (rule role_loop_none) (simp add: find_None_iff has_role_overwrite_def)

lemma role_loop_find_Some:
  "find (has_role_overwrite db gid command) rs = Some role \<Longrightarrow>
   RoleOverwrite_get db gid (role_id role) command = Some allow \<Longrightarrow>
   role_loop db gid command rs =
     (map (\<lambda>r. RoleOverwrite_lookup gid (role_id r) command)
        (takeWhile (\<lambda>r. \<not> has_role_overwrite db gid command r) rs @ [role]),
      Some (if allow then Inr True else Inl (NegativeRoleOverwrite role)))"
proof (induction rs)
  case Nil
  then show ?case by simp
next
  case (Cons r rs)
  show ?case
  proof (cases "has_role_overwrite db gid command r")
    case True
    with Cons.prems have "r = role" by simp
    with Cons.prems True show ?thesis by simp
  next
    case False
    with Cons.prems have "find (has_role_overwrite db gid command) rs = Some role" by simp
    from Cons.IH [OF this Cons.prems(2)] False show ?thesis
      by (simp add: has_role_overwrite_def)
  qed
qed

lemma find_has_role_overwrite:
  "find (has_role_overwrite db gid command) rs = Some role \<Longrightarrow>
   \<exists>allow. RoleOverwrite_get db gid (role_id role) command = Some allow"
  by (auto simp: find_Some_iff has_role_overwrite_def)

lemma mapping_loop_find_None:
  "find (has_mapping db gid) rs = None \<Longrightarrow>
   mapping_loop db gid rs = (map (\<lambda>r. ACLevelMappping_lookup gid (role_id r)) rs, EVERYONE)"
  by (rule mapping_loop_none) (simp add: find_None_iff has_mapping_def)

lemma mapping_loop_find_Some:
  "find (has_mapping db gid) rs = Some role \<Longrightarrow>
   ACLevelMappping_get db gid (role_id role) = Some lvl \<Longrightarrow>
   mapping_loop db gid rs =
     (map (\<lambda>r. ACLevelMappping_lookup gid (role_id r))
        (takeWhile (\<lambda>r. \<not> has_mapping db gid r) rs @ [role]), lvl)"
proof (induction rs)
  case Nil
  then show ?case by simp
next
  case (Cons r rs)
  show ?case
  proof (cases "has_mapping db gid r")
    case True
    with Cons.prems have "r = role" by simp
    with Cons.prems True show ?thesis by simp
  next
    case False
    with Cons.prems have "find (has_mapping db gid) rs = Some role" by simp
    from Cons.IH [OF this Cons.prems(2)] False show ?thesis
      by (simp add: has_mapping_def)
  qed
qed

lemma find_has_mapping:
  "find (has_mapping db gid) rs = Some role \<Longrightarrow>
   \<exists>lvl. ACLevelMappping_get db gid (role_id role) = Some lvl"
  by (auto simp: find_Some_iff has_mapping_def)

lemma mapping_loop_range:
  "snd (mapping_loop db gid rs) = EVERYONE \<or>
   (\<exists>r \<in> set rs. ACLevelMappping_get db gid (role_id r) = Some (snd (mapping_loop db gid rs)))"
  by (induction rs) (auto split: option.splits prod.splits)

lemma find_rev_highest:
  "sorted (map f xs) \<Longrightarrow> find P (rev xs) = Some y \<Longrightarrow> x \<in> set xs \<Longrightarrow> P x \<Longrightarrow> f x \<le> f y"
proof (induction xs rule: rev_induct)
  case Nil
  then show ?case by simp
next
  case (snoc a xs)
  show ?case
  proof (cases "P a")
    case True
    with snoc.prems(2) have "y = a" by simp
    with snoc.prems(1,3) show ?thesis
      by (auto simp: sorted_append)
  next
    case False
    with snoc.prems have "find P (rev xs) = Some y" "x \<in> set xs" "sorted (map f xs)"
      by (auto simp: sorted_append)
    with snoc.IH snoc.prems(4) show ?thesis by blast
  qed
qed

section \<open>The level of a member, case by case\<close>

lemma map_member_no_owner:
  "guild_owner (member_guild m) = None \<Longrightarrow> map_member_to_ACLevel db b m = ([], Inl AttributeError)"
  by (simp add: map_member_to_ACLevel_def)

lemma map_member_no_ids:
  "guild_owner (member_guild m) = Some oid \<Longrightarrow> owner_ids b = Attribute_None \<Longrightarrow>
   map_member_to_ACLevel db b m = ([], Inl TypeError)"
  by (simp add: map_member_to_ACLevel_def)

lemma map_member_bot_owner:
  "guild_owner (member_guild m) = Some oid \<Longrightarrow> member_id m \<in> bot_owner_ids b \<Longrightarrow>
   map_member_to_ACLevel db b m = ([], Inr BOT_OWNER)"
  by (cases "owner_ids b") (simp_all add: map_member_to_ACLevel_def bot_owner_ids_def)

lemma map_member_guild_owner:
  "owner_ids b \<noteq> Attribute_None \<Longrightarrow> member_id m \<notin> bot_owner_ids b \<Longrightarrow>
   guild_owner (member_guild m) = Some (member_id m) \<Longrightarrow>
   map_member_to_ACLevel db b m = ([], Inr GUILD_OWNER)"
  by (cases "owner_ids b") (simp_all add: map_member_to_ACLevel_def bot_owner_ids_def)

lemma map_member_other:
  "owner_ids b \<noteq> Attribute_None \<Longrightarrow> member_id m \<notin> bot_owner_ids b \<Longrightarrow>
   guild_owner (member_guild m) = Some oid \<Longrightarrow> member_id m \<noteq> oid \<Longrightarrow>
   map_member_to_ACLevel db b m =
     (fst (mapping_loop db (guild_id (member_guild m)) (rev (roles m))),
      Inr (snd (mapping_loop db (guild_id (member_guild m)) (rev (roles m)))))"
  by (cases "owner_ids b")
    (simp_all add: map_member_to_ACLevel_def bot_owner_ids_def split: prod.split)

lemma map_member_stages: "stages_consulted (fst (map_member_to_ACLevel db b m)) = []"
proof (cases "guild_owner (member_guild m)")
  case None
  then show ?thesis by (simp add: map_member_no_owner)
next
  case (Some oid)
  show ?thesis
  proof (cases "owner_ids b = Attribute_None")
    case True
    with Some show ?thesis by (simp add: map_member_no_ids)
  next
    case ids: False
    show ?thesis
    proof (cases "member_id m \<in> bot_owner_ids b")
      case True
      with Some show ?thesis by (simp add: map_member_bot_owner)
    next
      case False
      with Some ids show ?thesis
        by (cases "member_id m = oid")
          (simp_all add: map_member_guild_owner map_member_other mapping_loop_stages)
    qed
  qed
qed



lemma level_value_le_BOT_OWNER: "level_value l \<le> level_value BOT_OWNER"
  by (cases l) simp_all

lemma level_value_le_GUILD_OWNER: "l \<noteq> BOT_OWNER \<Longrightarrow> level_value l \<le> level_value GUILD_OWNER"
  by (cases l) simp_all

section \<open>The evaluation, case by case\<close>

lemma acl2_member_error:
  assumes "ctx_guild ctx = Some g"
    and "snd (map_member_to_ACLevel db (ctx_bot ctx) (ctx_author ctx)) = Inl e"
  shows "acl2_function db ctx level fc = (fst (map_member_to_ACLevel db (ctx_bot ctx) (ctx_author ctx)), Inl e)"
proof -
  obtain steps1 where "map_member_to_ACLevel db (ctx_bot ctx) (ctx_author ctx) = (steps1, Inl e)"
    using assms(2) by (cases "map_member_to_ACLevel db (ctx_bot ctx) (ctx_author ctx)") simp
  then show ?thesis
    by (simp add: acl2_function_def assms(1))
qed

lemma acl2_function_guild:
  assumes "ctx_guild ctx = Some g"
    and "snd (map_member_to_ACLevel db (ctx_bot ctx) (ctx_author ctx)) = Inr member_level"
  shows "acl2_function db ctx level fc =
    (let command = command_name ctx fc;
         gid = guild_id g;
         author = ctx_author ctx;
         steps1 = fst (map_member_to_ACLevel db (ctx_bot ctx) (ctx_author ctx));
         required = effective_level db gid command level;
         steps3 = steps1 @ [ACDefault_lookup gid command,
                            UserOverwrite_lookup gid (member_id author) command];
         steps4 = steps3 @ [ChannelOverwrite_lookup gid (channel_id (ctx_channel ctx)) command];
         looped = role_loop db gid command (roles author)
     in if member_level = BOT_OWNER then (steps1, Inr True)
        else case UserOverwrite_get db gid (member_id author) command of
          Some allow \<Rightarrow> (steps3, if allow then Inr True else Inl NegativeUserOverwrite)
        | None \<Rightarrow>
          (case ChannelOverwrite_get db gid (channel_id (ctx_channel ctx)) command of
             Some allow \<Rightarrow>
               (steps4, if allow then Inr True
                        else Inl (NegativeChannelOverwrite (ctx_channel ctx)))
           | None \<Rightarrow>
               (case snd looped of
                  Some outcome \<Rightarrow> (steps4 @ fst looped, outcome)
                | None \<Rightarrow>
                    (steps4 @ fst looped @ [Level_comparison member_level required],
                     if level_value required \<le> level_value member_level then Inr True
                     else Inl (InsufficientACLevel required member_level)))))"
proof -
  obtain steps1 where
    m: "map_member_to_ACLevel db (ctx_bot ctx) (ctx_author ctx) = (steps1, Inr member_level)"
    using assms(2) by (cases "map_member_to_ACLevel db (ctx_bot ctx) (ctx_author ctx)") simp
  obtain steps5 outcome where
    r: "role_loop db (guild_id g) (command_name ctx fc) (roles (ctx_author ctx)) = (steps5, outcome)"
    by (cases "role_loop db (guild_id g) (command_name ctx fc) (roles (ctx_author ctx))")
  show ?thesis
    by (simp add: acl2_function_def effective_level_def Let_def assms(1) m r split: option.split)
qed

lemma acl2_bot_owner_level:
  assumes "ctx_guild ctx = Some g"
    and "snd (map_member_to_ACLevel db (ctx_bot ctx) (ctx_author ctx)) = Inr BOT_OWNER"
  shows "acl2_function db ctx level fc = (fst (map_member_to_ACLevel db (ctx_bot ctx) (ctx_author ctx)), Inr True)"
  by (simp add: acl2_function_guild [OF assms])

lemma acl2_user_overwrite:
  assumes "ctx_guild ctx = Some g"
    and "snd (map_member_to_ACLevel db (ctx_bot ctx) (ctx_author ctx)) = Inr member_level"
    and "member_level \<noteq> BOT_OWNER"
    and "UserOverwrite_get db (guild_id g) (member_id (ctx_author ctx)) (command_name ctx fc)
           = Some allow"
  shows "acl2_function db ctx level fc =
    (fst (map_member_to_ACLevel db (ctx_bot ctx) (ctx_author ctx)) @
       [ACDefault_lookup (guild_id g) (command_name ctx fc),
        UserOverwrite_lookup (guild_id g) (member_id (ctx_author ctx)) (command_name ctx fc)],
     if allow then Inr True else Inl NegativeUserOverwrite)"
  by (simp add: acl2_function_guild [OF assms(1,2)] assms(3,4) Let_def)

lemma acl2_channel_overwrite:
  assumes "ctx_guild ctx = Some g"
    and "snd (map_member_to_ACLevel db (ctx_bot ctx) (ctx_author ctx)) = Inr member_level"
    and "member_level \<noteq> BOT_OWNER"
    and "UserOverwrite_get db (guild_id g) (member_id (ctx_author ctx)) (command_name ctx fc)
           = None"
    and "ChannelOverwrite_get db (guild_id g) (channel_id (ctx_channel ctx))
           (command_name ctx fc) = Some allow"
  shows "acl2_function db ctx level fc =
    (fst (map_member_to_ACLevel db (ctx_bot ctx) (ctx_author ctx)) @
       [ACDefault_lookup (guild_id g) (command_name ctx fc),
        UserOverwrite_lookup (guild_id g) (member_id (ctx_author ctx)) (command_name ctx fc),
        ChannelOverwrite_lookup (guild_id g) (channel_id (ctx_channel ctx))
          (command_name ctx fc)],
     if allow then Inr True else Inl (NegativeChannelOverwrite (ctx_channel ctx)))"
  by (simp add: acl2_function_guild [OF assms(1,2)] assms(3,4,5) Let_def)

lemma acl2_role_overwrite:
  assumes "ctx_guild ctx = Some g"
    and "snd (map_member_to_ACLevel db (ctx_bot ctx) (ctx_author ctx)) = Inr member_level"
    and "member_level \<noteq> BOT_OWNER"
    and "UserOverwrite_get db (guild_id g) (member_id (ctx_author ctx)) (command_name ctx fc)
           = None"
    and "ChannelOverwrite_get db (guild_id g) (channel_id (ctx_channel ctx))
           (command_name ctx fc) = None"
    and "role_loop db (guild_id g) (command_name ctx fc) (roles (ctx_author ctx))
           = (steps5, Some outcome)"
  shows "acl2_function db ctx level fc =
    (fst (map_member_to_ACLevel db (ctx_bot ctx) (ctx_author ctx)) @
       [ACDefault_lookup (guild_id g) (command_name ctx fc),
        UserOverwrite_lookup (guild_id g) (member_id (ctx_author ctx)) (command_name ctx fc),
        ChannelOverwrite_lookup (guild_id g) (channel_id (ctx_channel ctx))
          (command_name ctx fc)] @ steps5,
     outcome)"
  by (simp add: acl2_function_guild [OF assms(1,2)] assms(3,4,5,6) Let_def)

lemma acl2_level_comparison:
  assumes "ctx_guild ctx = Some g"
    and "snd (map_member_to_ACLevel db (ctx_bot ctx) (ctx_author ctx)) = Inr member_level"
    and "member_level \<noteq> BOT_OWNER"
    and "UserOverwrite_get db (guild_id g) (member_id (ctx_author ctx)) (command_name ctx fc)
           = None"
    and "ChannelOverwrite_get db (guild_id g) (channel_id (ctx_channel ctx))
           (command_name ctx fc) = None"
    and "role_loop db (guild_id g) (command_name ctx fc) (roles (ctx_author ctx))
           = (steps5, None)"
  shows "acl2_function db ctx level fc =
    (fst (map_member_to_ACLevel db (ctx_bot ctx) (ctx_author ctx)) @
       [ACDefault_lookup (guild_id g) (command_name ctx fc),
        UserOverwrite_lookup (guild_id g) (member_id (ctx_author ctx)) (command_name ctx fc),
        ChannelOverwrite_lookup (guild_id g) (channel_id (ctx_channel ctx))
          (command_name ctx fc)] @ steps5 @
       [Level_comparison member_level
          (effective_level db (guild_id g) (command_name ctx fc) level)],
     if level_value (effective_level db (guild_id g) (command_name ctx fc) level)
          \<le> level_value member_level
     then Inr True
     else Inl (InsufficientACLevel
                 (effective_level db (guild_id g) (command_name ctx fc) level)
                 member_level))"
  by (simp add: acl2_function_guild [OF assms(1,2)] assms(3,4,5,6) Let_def)

lemma stages_role_lookups:
  "stages_consulted (map (\<lambda>r. RoleOverwrite_lookup gid (role_id r) command) rs) =
     replicate (length rs) Role_stage"
  by (induction rs) simp_all

lemma acl2_consults_user:
  assumes "ctx_guild ctx = Some g"
    and "snd (map_member_to_ACLevel db (ctx_bot ctx) (ctx_author ctx)) = Inr member_level"
    and "member_level \<noteq> BOT_OWNER"
  shows "\<exists>rest. stages_consulted (fst (acl2_function db ctx level fc)) = User_stage # rest"
  by (simp add: acl2_function_guild [OF assms(1,2)] assms(3) Let_def map_member_stages
      split: option.split)

lemma sorted_role_stages:
  "sorted (map stage_rank (User_stage # Channel_stage # replicate n Role_stage))"
  "sorted (map stage_rank (User_stage # Channel_stage # replicate n Role_stage @ [Level_stage]))"
  by (simp_all add: sorted_append)

lemmas example_defs =
  role_everyone_def role_R1_def role_R2_def role_R3_def a_channel_def a_guild_def a_bot_def
  member_of_def invocation_def tables_def ownerless_guild_def unset_bot_def

section \<open>The claims of the specification\<close>

subsection \<open>Direct messages\<close>

text \<open>
  C6. Whenever the context has no guild, the evaluation returns \<open>True\<close> at once, whoever the
  actor and whatever the command: it performs no lookup in any table, resolves no level and
  compares no level (its list of steps is empty).
\<close>

theorem acl2_no_guild_allowed:
  "ctx_guild ctx = None \<Longrightarrow> acl2_function db ctx level for_command = ([], Inr True)"
  by (simp add: acl2_function_def)

text \<open>
  An actor whose level would resolve to \<open>EVERYONE\<close>, with a negative user and channel
  overwrite, invoking a command declared for \<open>BOT_OWNER\<close> in a direct message.
\<close>

theorem acl2_no_guild_allowed_witness:
  "ctx_guild (invocation None (member_of 200 [role_everyone])) = None \<and>
   snd (map_member_to_ACLevel (tables Map.empty None [200 \<mapsto> False] (Some False) Map.empty)
          a_bot (member_of 200 [role_everyone])) = Inr EVERYONE \<and>
   acl2_function (tables Map.empty None [200 \<mapsto> False] (Some False) Map.empty)
     (invocation None (member_of 200 [role_everyone])) BOT_OWNER None = ([], Inr True)"
  using acl2_no_guild_allowed
    [of "invocation None (member_of 200 [role_everyone])"
        "tables Map.empty None [200 \<mapsto> False] (Some False) Map.empty" BOT_OWNER None]
  by (simp add: example_defs map_member_to_ACLevel_def)

subsection \<open>Bot owners\<close>



subsection \<open>The level of a member\<close>

text \<open>
  C3, as amended. For a member who is neither an owner of the bot nor the owner of the guild,
  the roles are visited in the reverse of the order of \<open>member.roles\<close>, one lookup per role,
  and the first role that has a mapping ends the scan and gives the level; without such a role
  every role is looked up and the level is \<open>EVERYONE\<close>. As \<open>member.roles\<close> lists the roles
  lowest first, the scan starts at the highest role, and the role that gives the level is the
  highest of the member's mapped roles. In particular, for a member holding \<open>R1\<close> (high),
  \<open>R2\<close> (mid) and \<open>R3\<close> (low) with the mappings \<open>R1\<close> to \<open>MOD\<close> and \<open>R3\<close> to \<open>VIP\<close>, only
  \<open>R1\<close> is looked up and the level is \<open>MOD\<close>.
\<close>

theorem map_member_highest_role_first:
  assumes "owner_ids b \<noteq> Attribute_None"
    and "member_id m \<notin> bot_owner_ids b"
    and "guild_owner (member_guild m) = Some oid"
    and "member_id m \<noteq> oid"
  shows
    "(case find (has_mapping db (guild_id (member_guild m))) (rev (roles m)) of
        None \<Rightarrow>
          map_member_to_ACLevel db b m =
            (map (\<lambda>r. ACLevelMappping_lookup (guild_id (member_guild m)) (role_id r))
               (rev (roles m)),
             Inr EVERYONE)
      | Some role \<Rightarrow>
          fst (map_member_to_ACLevel db b m) =
            map (\<lambda>r. ACLevelMappping_lookup (guild_id (member_guild m)) (role_id r))
              (takeWhile (\<lambda>r. \<not> has_mapping db (guild_id (member_guild m)) r) (rev (roles m))
               @ [role]) \<and>
          (\<exists>mapping_level.
             ACLevelMappping_get db (guild_id (member_guild m)) (role_id role)
               = Some mapping_level \<and>
             snd (map_member_to_ACLevel db b m) = Inr mapping_level)) \<and>
     (hierarchy_order (roles m) \<longrightarrow>
        (\<forall>role r.
           find (has_mapping db (guild_id (member_guild m))) (rev (roles m)) = Some role \<and>
           r \<in> set (roles m) \<and> has_mapping db (guild_id (member_guild m)) r \<longrightarrow>
           role_position r \<le> role_position role)) \<and>
     (\<forall>everyone R1 R2 R3.
        roles m = [everyone, R3, R2, R1] \<and>
        ACLevelMappping_get db (guild_id (member_guild m)) (role_id R1) = Some MOD \<and>
        ACLevelMappping_get db (guild_id (member_guild m)) (role_id R3) = Some VIP \<longrightarrow>
        map_member_to_ACLevel db b m =
          ([ACLevelMappping_lookup (guild_id (member_guild m)) (role_id R1)], Inr MOD))"
proof -
  let ?gid = "guild_id (member_guild m)"
  let ?loop = "mapping_loop db ?gid (rev (roles m))"
  have eq: "map_member_to_ACLevel db b m = (fst ?loop, Inr (snd ?loop))"
    using assms by (rule map_member_other)
  have first: "case find (has_mapping db ?gid) (rev (roles m)) of
        None \<Rightarrow>
          map_member_to_ACLevel db b m =
            (map (\<lambda>r. ACLevelMappping_lookup ?gid (role_id r)) (rev (roles m)), Inr EVERYONE)
      | Some role \<Rightarrow>
          fst (map_member_to_ACLevel db b m) =
            map (\<lambda>r. ACLevelMappping_lookup ?gid (role_id r))
              (takeWhile (\<lambda>r. \<not> has_mapping db ?gid r) (rev (roles m)) @ [role]) \<and>
          (\<exists>mapping_level.
             ACLevelMappping_get db ?gid (role_id role) = Some mapping_level \<and>
             snd (map_member_to_ACLevel db b m) = Inr mapping_level)"
  proof (cases "find (has_mapping db ?gid) (rev (roles m))")
    case None
    then show ?thesis by (simp add: eq mapping_loop_find_None)
  next
    case (Some role)
    from find_has_mapping [OF Some] obtain lvl where
      lvl: "ACLevelMappping_get db ?gid (role_id role) = Some lvl" ..
    from mapping_loop_find_Some [OF Some lvl] Some lvl show ?thesis
      by (simp add: eq)
  qed
  have highest: "role_position r \<le> role_position role"
    if "hierarchy_order (roles m)"
      and "find (has_mapping db ?gid) (rev (roles m)) = Some role"
      and "r \<in> set (roles m)" and "has_mapping db ?gid r" for role r
    using that(1) [unfolded hierarchy_order_def] that(2,3,4) by (rule find_rev_highest)
  have example:
    "map_member_to_ACLevel db b m = ([ACLevelMappping_lookup ?gid (role_id R1)], Inr MOD)"
    if "roles m = [everyone, R3, R2, R1]"
      and "ACLevelMappping_get db ?gid (role_id R1) = Some MOD" for everyone R1 R2 R3
    using that by (simp add: eq)
  from first highest example show ?thesis by blast
qed

text \<open>
  A member with the roles \<open>@everyone\<close>, \<open>R3\<close>, \<open>R2\<close>, \<open>R1\<close>, as the library lists them: with
  \<open>R1\<close> and \<open>R3\<close> mapped the single lookup is that of \<open>R1\<close>; with \<open>R3\<close> alone mapped the scan
  goes through \<open>R1\<close>, \<open>R2\<close> and \<open>R3\<close>, in that order.
\<close>

theorem map_member_highest_role_first_witness:
  "owner_ids a_bot \<noteq> Attribute_None \<and>
   member_id (member_of 200 [role_everyone, role_R3, role_R2, role_R1]) \<notin> bot_owner_ids a_bot \<and>
   guild_owner (member_guild (member_of 200 [role_everyone, role_R3, role_R2, role_R1]))
     = Some 100 \<and>
   member_id (member_of 200 [role_everyone, role_R3, role_R2, role_R1]) \<noteq> 100 \<and>
   hierarchy_order (roles (member_of 200 [role_everyone, role_R3, role_R2, role_R1])) \<and>
   map_member_to_ACLevel (tables [1 \<mapsto> MOD, 3 \<mapsto> VIP] None Map.empty None Map.empty) a_bot
     (member_of 200 [role_everyone, role_R3, role_R2, role_R1])
     = ([ACLevelMappping_lookup 10 1], Inr MOD) \<and>
   find (has_mapping (tables [3 \<mapsto> VIP] None Map.empty None Map.empty) 10)
     (rev [role_everyone, role_R3, role_R2, role_R1]) = Some role_R3 \<and>
   fst (map_member_to_ACLevel (tables [3 \<mapsto> VIP] None Map.empty None Map.empty) a_bot
     (member_of 200 [role_everyone, role_R3, role_R2, role_R1])) =
     [ACLevelMappping_lookup 10 1, ACLevelMappping_lookup 10 2, ACLevelMappping_lookup 10 3] \<and>
   snd (map_member_to_ACLevel (tables [3 \<mapsto> VIP] None Map.empty None Map.empty) a_bot
     (member_of 200 [role_everyone, role_R3, role_R2, role_R1])) = Inr VIP"
  using map_member_highest_role_first
    [of a_bot "member_of 200 [role_everyone, role_R3, role_R2, role_R1]" 100
        "tables [1 \<mapsto> MOD, 3 \<mapsto> VIP] None Map.empty None Map.empty"]
    map_member_highest_role_first
    [of a_bot "member_of 200 [role_everyone, role_R3, role_R2, role_R1]" 100
        "tables [3 \<mapsto> VIP] None Map.empty None Map.empty"]
  by (simp add: example_defs bot_owner_ids_def has_mapping_def hierarchy_order_def)

text \<open>
  C3 as the specification states it fails on the list the library delivers: the scan does not
  start at the lowest role, and the member holding \<open>R1\<close> (high), \<open>R2\<close> (mid), \<open>R3\<close> (low) with
  \<open>R1\<close> mapped to \<open>MOD\<close> and \<open>R3\<close> to \<open>VIP\<close> gets \<open>MOD\<close>, not \<open>VIP\<close>, after the lookup of
  \<open>R1\<close> alone.
\<close>

theorem map_member_lowest_first_counterexample:
  "hierarchy_order [role_everyone, role_R3, role_R2, role_R1] \<and>
   role_position role_R3 < role_position role_R2 \<and>
   role_position role_R2 < role_position role_R1 \<and>
   map_member_to_ACLevel (tables [1 \<mapsto> MOD, 3 \<mapsto> VIP] None Map.empty None Map.empty) a_bot
     (member_of 200 [role_everyone, role_R3, role_R2, role_R1])
     = ([ACLevelMappping_lookup 10 (role_id role_R1)], Inr MOD) \<and>
   snd (map_member_to_ACLevel (tables [1 \<mapsto> MOD, 3 \<mapsto> VIP] None Map.empty None Map.empty)
          a_bot (member_of 200 [role_everyone, role_R3, role_R2, role_R1])) \<noteq> Inr VIP"
  by (simp add: example_defs hierarchy_order_def map_member_to_ACLevel_def)

text \<open>
  C8, as amended. When the guild has an owner member and the bot's \<open>owner_ids\<close> is not
  \<open>None\<close>, \<open>map_member_to_ACLevel\<close> raises nothing and returns a level: \<open>BOT_OWNER\<close>,
  \<open>GUILD_OWNER\<close>, \<open>EVERYONE\<close>, or the level that the table maps to one of the member's roles.
  For such a member who is neither an owner of the bot nor the owner of the guild and none of
  whose roles is mapped, the level is \<open>EVERYONE\<close>.
\<close>

theorem map_member_returns_level:
  assumes "owners_readable b m"
  shows
    "(\<exists>steps member_level.
        map_member_to_ACLevel db b m = (steps, Inr member_level) \<and>
        (member_level \<in> {BOT_OWNER, GUILD_OWNER, EVERYONE} \<or>
         (\<exists>role \<in> set (roles m).
            ACLevelMappping_get db (guild_id (member_guild m)) (role_id role)
              = Some member_level))) \<and>
     (member_id m \<notin> bot_owner_ids b \<and> guild_owner (member_guild m) \<noteq> Some (member_id m) \<and>
      (\<forall>role \<in> set (roles m).
         ACLevelMappping_get db (guild_id (member_guild m)) (role_id role) = None) \<longrightarrow>
      snd (map_member_to_ACLevel db b m) = Inr EVERYONE)"
proof -
  let ?gid = "guild_id (member_guild m)"
  from assms obtain oid where oid: "guild_owner (member_guild m) = Some oid"
    and ids: "owner_ids b \<noteq> Attribute_None"
    by (auto simp: owners_readable_def)
  have range: "\<exists>steps member_level.
        map_member_to_ACLevel db b m = (steps, Inr member_level) \<and>
        (member_level \<in> {BOT_OWNER, GUILD_OWNER, EVERYONE} \<or>
         (\<exists>role \<in> set (roles m). ACLevelMappping_get db ?gid (role_id role) = Some member_level))"
  proof (cases "member_id m \<in> bot_owner_ids b")
    case True
    with oid show ?thesis by (simp add: map_member_bot_owner)
  next
    case no_bot: False
    show ?thesis
    proof (cases "member_id m = oid")
      case True
      with no_bot oid ids show ?thesis by (simp add: map_member_guild_owner)
    next
      case False
      from map_member_other [OF ids no_bot oid False, of db]
        mapping_loop_range [of db ?gid "rev (roles m)"]
      show ?thesis by auto
    qed
  qed
  have unmapped: "snd (map_member_to_ACLevel db b m) = Inr EVERYONE"
    if "member_id m \<notin> bot_owner_ids b" "guild_owner (member_guild m) \<noteq> Some (member_id m)"
      "\<forall>role \<in> set (roles m). ACLevelMappping_get db ?gid (role_id role) = None"
  proof -
    from that(2) oid have "member_id m \<noteq> oid" by auto
    from map_member_other [OF ids that(1) oid this, of db] that(3) show ?thesis
      by (simp add: mapping_loop_none)
  qed
  from range unmapped show ?thesis by blast
qed

text \<open>A member with two roles, neither of them mapped.\<close>

theorem map_member_returns_level_witness:
  "owners_readable a_bot (member_of 200 [role_everyone, role_R1]) \<and>
   member_id (member_of 200 [role_everyone, role_R1]) \<notin> bot_owner_ids a_bot \<and>
   guild_owner (member_guild (member_of 200 [role_everyone, role_R1])) \<noteq> Some 200 \<and>
   roles (member_of 200 [role_everyone, role_R1]) = [role_everyone, role_R1] \<and>
   ACLevelMappping_get (tables [3 \<mapsto> MOD] None Map.empty None Map.empty)
     (guild_id (member_guild (member_of 200 [role_everyone, role_R1]))) (role_id role_everyone)
     = None \<and>
   ACLevelMappping_get (tables [3 \<mapsto> MOD] None Map.empty None Map.empty)
     (guild_id (member_guild (member_of 200 [role_everyone, role_R1]))) (role_id role_R1)
     = None \<and>
   snd (map_member_to_ACLevel (tables [3 \<mapsto> MOD] None Map.empty None Map.empty) a_bot
          (member_of 200 [role_everyone, role_R1])) = Inr EVERYONE"
  using map_member_returns_level
    [of a_bot "member_of 200 [role_everyone, role_R1]"
        "tables [3 \<mapsto> MOD] None Map.empty None Map.empty"]
  by (simp add: example_defs bot_owner_ids_def owners_readable_def)

text \<open>
  C8 as the specification states it fails: the function has error conditions. In a guild whose
  owner member the library does not know, reading \<open>member.guild.owner.id\<close> raises
  \<open>AttributeError\<close>, for the bot's owner as for anybody else; with a bot whose \<open>owner_ids\<close> is
  \<open>None\<close>, the membership test raises \<open>TypeError\<close>. No level is returned.
\<close>

theorem map_member_raises_counterexample:
  "map_member_to_ACLevel (tables Map.empty None Map.empty None Map.empty) a_bot
     \<lparr>member_id = 1000, member_guild = ownerless_guild, roles = [role_everyone]\<rparr>
     = ([], Inl AttributeError) \<and>
   map_member_to_ACLevel (tables Map.empty None Map.empty None Map.empty) a_bot
     \<lparr>member_id = 200, member_guild = ownerless_guild, roles = [role_everyone]\<rparr>
     = ([], Inl AttributeError) \<and>
   map_member_to_ACLevel (tables Map.empty None Map.empty None Map.empty) unset_bot
     (member_of 200 [role_everyone]) = ([], Inl TypeError)"
  by (simp add: example_defs map_member_to_ACLevel_def)

subsection \<open>The stages of the evaluation\<close>



text \<open>
  C5. In a guild, when neither the user, nor the channel, nor any of the actor's roles has an
  overwrite for the command, the required level is the guild's default level of the command if
  there is one and the declared level otherwise; the evaluation returns \<open>True\<close> when the
  actor's level is greater than or equal to it, and raises \<open>InsufficientACLevel\<close> with
  \<open>required\<close> the required level and \<open>actual\<close> the actor's level otherwise. Unless the
  actor's level is \<open>BOT_OWNER\<close>, the last step of the evaluation is that comparison.
\<close>

theorem level_comparison_stage:
  assumes "ctx_guild ctx = Some g"
    and "snd (map_member_to_ACLevel db (ctx_bot ctx) (ctx_author ctx)) = Inr member_level"
    and "UserOverwrite_get db (guild_id g) (member_id (ctx_author ctx))
           (command_name ctx for_command) = None"
    and "ChannelOverwrite_get db (guild_id g) (channel_id (ctx_channel ctx))
           (command_name ctx for_command) = None"
    and "\<forall>role \<in> set (roles (ctx_author ctx)).
           RoleOverwrite_get db (guild_id g) (role_id role) (command_name ctx for_command) = None"
  shows
    "effective_level db (guild_id g) (command_name ctx for_command) level =
       (case ACDefault_get db (guild_id g) (command_name ctx for_command) of
          Some default_level \<Rightarrow> default_level
        | None \<Rightarrow> level) \<and>
     snd (acl2_function db ctx level for_command) =
       (if level_value member_level
             \<ge> level_value (effective_level db (guild_id g) (command_name ctx for_command) level)
        then Inr True
        else Inl (InsufficientACLevel
                    (effective_level db (guild_id g) (command_name ctx for_command) level)
                    member_level)) \<and>
     (member_level \<noteq> BOT_OWNER \<longrightarrow>
        last (fst (acl2_function db ctx level for_command)) =
          Level_comparison member_level
            (effective_level db (guild_id g) (command_name ctx for_command) level))"
proof (cases "member_level = BOT_OWNER")
  case True
  have "level_value (effective_level db (guild_id g) (command_name ctx for_command) level) \<le> 5"
    using level_value_le_BOT_OWNER
      [of "effective_level db (guild_id g) (command_name ctx for_command) level"]
    by simp
  moreover have "effective_level db (guild_id g) (command_name ctx for_command) level =
       (case ACDefault_get db (guild_id g) (command_name ctx for_command) of
          Some default_level \<Rightarrow> default_level
        | None \<Rightarrow> level)"
    by (simp add: effective_level_def)
  ultimately show ?thesis
    using acl2_bot_owner_level [OF assms(1) assms(2) [unfolded True], of level for_command] True
    by simp
next
  case False
  have "effective_level db (guild_id g) (command_name ctx for_command) level =
       (case ACDefault_get db (guild_id g) (command_name ctx for_command) of
          Some default_level \<Rightarrow> default_level
        | None \<Rightarrow> level)"
    by (simp add: effective_level_def)
  then show ?thesis
    using acl2_level_comparison
      [OF assms(1,2) False assms(3,4) role_loop_none [OF assms(5)], of level] False
    by simp
qed

text \<open>
  The default level \<open>MOD\<close> replaces a declared \<open>BOT_OWNER\<close> and equality allows; \<open>EVERYONE\<close>
  against a required \<open>MOD\<close> is refused; \<open>EVERYONE\<close> against \<open>EVERYONE\<close> is allowed.
\<close>

theorem level_comparison_stage_witness:
  "ctx_guild (invocation (Some a_guild) (member_of 200 [role_everyone, role_R1]))
     = Some a_guild \<and>
   acl2_function (tables [1 \<mapsto> MOD] (Some MOD) Map.empty None Map.empty)
     (invocation (Some a_guild) (member_of 200 [role_everyone, role_R1])) BOT_OWNER None =
     ([ACLevelMappping_lookup 10 1, ACDefault_lookup 10 ''repeat'',
       UserOverwrite_lookup 10 200 ''repeat'', ChannelOverwrite_lookup 10 50 ''repeat'',
       RoleOverwrite_lookup 10 10 ''repeat'', RoleOverwrite_lookup 10 1 ''repeat'',
       Level_comparison MOD MOD],
      Inr True) \<and>
   snd (acl2_function (tables Map.empty (Some MOD) Map.empty None Map.empty)
     (invocation (Some a_guild) (member_of 200 [role_everyone, role_R1])) EVERYONE None) =
     Inl (InsufficientACLevel MOD EVERYONE) \<and>
   snd (acl2_function (tables Map.empty None Map.empty None Map.empty)
     (invocation (Some a_guild) (member_of 200 [role_everyone, role_R1])) EVERYONE None) =
     Inr True"
  using level_comparison_stage
    [where ctx = "invocation (Some a_guild) (member_of 200 [role_everyone, role_R1])"
       and g = a_guild and member_level = MOD and for_command = None and level = BOT_OWNER
       and db = "tables [1 \<mapsto> MOD] (Some MOD) Map.empty None Map.empty"]
    level_comparison_stage
    [where ctx = "invocation (Some a_guild) (member_of 200 [role_everyone, role_R1])"
       and g = a_guild and member_level = EVERYONE and for_command = None and level = EVERYONE
       and db = "tables Map.empty (Some MOD) Map.empty None Map.empty"]
    level_comparison_stage
    [where ctx = "invocation (Some a_guild) (member_of 200 [role_everyone, role_R1])"
       and g = a_guild and member_level = EVERYONE and for_command = None and level = EVERYONE
       and db = "tables Map.empty None Map.empty None Map.empty"]
  by (simp add: example_defs bot_owner_ids_def command_name_def effective_level_def
      map_member_to_ACLevel_def acl2_function_def Let_def)

text \<open>
  C7. When the evaluation comes to the role overwrites (the actor's level is not \<open>BOT_OWNER\<close>
  and neither the user nor the channel has an overwrite), it looks the roles up in the order
  of \<open>ctx.author.roles\<close>, not reversed, and the first role that has an overwrite decides:
  \<open>True\<close> when it allows, \<open>NegativeRoleOverwrite\<close> with that role when it does not. The
  lookups stop at that role: no later role of the list is looked up and no level is compared.
\<close>

theorem role_overwrite_first_match:
  assumes "ctx_guild ctx = Some g"
    and "snd (map_member_to_ACLevel db (ctx_bot ctx) (ctx_author ctx)) = Inr member_level"
    and "member_level \<noteq> BOT_OWNER"
    and "UserOverwrite_get db (guild_id g) (member_id (ctx_author ctx))
           (command_name ctx for_command) = None"
    and "ChannelOverwrite_get db (guild_id g) (channel_id (ctx_channel ctx))
           (command_name ctx for_command) = None"
    and "roles (ctx_author ctx) = pre @ role # post"
    and "\<forall>r \<in> set pre.
           RoleOverwrite_get db (guild_id g) (role_id r) (command_name ctx for_command) = None"
    and "RoleOverwrite_get db (guild_id g) (role_id role) (command_name ctx for_command)
           = Some allow"
  shows "acl2_function db ctx level for_command =
    (fst (map_member_to_ACLevel db (ctx_bot ctx) (ctx_author ctx)) @
       [ACDefault_lookup (guild_id g) (command_name ctx for_command),
        UserOverwrite_lookup (guild_id g) (member_id (ctx_author ctx))
          (command_name ctx for_command),
        ChannelOverwrite_lookup (guild_id g) (channel_id (ctx_channel ctx))
          (command_name ctx for_command)] @
       map (\<lambda>r. RoleOverwrite_lookup (guild_id g) (role_id r) (command_name ctx for_command))
         (pre @ [role]),
     if allow then Inr True else Inl (NegativeRoleOverwrite role))"
proof -
  have "role_loop db (guild_id g) (command_name ctx for_command) (roles (ctx_author ctx)) =
     (map (\<lambda>r. RoleOverwrite_lookup (guild_id g) (role_id r) (command_name ctx for_command))
        (pre @ [role]),
      Some (if allow then Inr True else Inl (NegativeRoleOverwrite role)))"
    unfolding assms(6) using assms(7,8) by (rule role_loop_first)
  from acl2_role_overwrite [OF assms(1,2,3,4,5) this, of level] show ?thesis .
qed

text \<open>
  With the roles \<open>[@everyone, R3, R2, R1]\<close>: a negative overwrite on \<open>R2\<close> and a positive one
  on \<open>R1\<close> give the denial for \<open>R2\<close> after the lookups of \<open>@everyone\<close>, \<open>R3\<close> and \<open>R2\<close>; a
  positive overwrite on \<open>@everyone\<close> and a negative one on \<open>R3\<close> allow after the lookup of
  \<open>@everyone\<close> alone.
\<close>

theorem role_overwrite_first_match_witness:
  "acl2_function (tables Map.empty None Map.empty None [2 \<mapsto> False, 1 \<mapsto> True])
     (invocation (Some a_guild) (member_of 200 [role_everyone, role_R3, role_R2, role_R1]))
     EVERYONE None =
     ([ACLevelMappping_lookup 10 1, ACLevelMappping_lookup 10 2, ACLevelMappping_lookup 10 3,
       ACLevelMappping_lookup 10 10,
       ACDefault_lookup 10 ''repeat'', UserOverwrite_lookup 10 200 ''repeat'',
       ChannelOverwrite_lookup 10 50 ''repeat'',
       RoleOverwrite_lookup 10 10 ''repeat'', RoleOverwrite_lookup 10 3 ''repeat'',
       RoleOverwrite_lookup 10 2 ''repeat''],
      Inl (NegativeRoleOverwrite role_R2)) \<and>
   acl2_function (tables Map.empty (Some MOD) Map.empty None [10 \<mapsto> True, 3 \<mapsto> False])
     (invocation (Some a_guild) (member_of 200 [role_everyone, role_R3, role_R2, role_R1]))
     MOD None =
     ([ACLevelMappping_lookup 10 1, ACLevelMappping_lookup 10 2, ACLevelMappping_lookup 10 3,
       ACLevelMappping_lookup 10 10,
       ACDefault_lookup 10 ''repeat'', UserOverwrite_lookup 10 200 ''repeat'',
       ChannelOverwrite_lookup 10 50 ''repeat'', RoleOverwrite_lookup 10 10 ''repeat''],
      Inr True)"
  using role_overwrite_first_match
    [where ctx = "invocation (Some a_guild)
                    (member_of 200 [role_everyone, role_R3, role_R2, role_R1])"
       and g = a_guild and member_level = EVERYONE and for_command = None and level = EVERYONE
       and db = "tables Map.empty None Map.empty None [2 \<mapsto> False, 1 \<mapsto> True]"
       and pre = "[role_everyone, role_R3]" and role = role_R2 and post = "[role_R1]"
       and allow = False]
    role_overwrite_first_match
    [where ctx = "invocation (Some a_guild)
                    (member_of 200 [role_everyone, role_R3, role_R2, role_R1])"
       and g = a_guild and member_level = EVERYONE and for_command = None and level = MOD
       and db = "tables Map.empty (Some MOD) Map.empty None [10 \<mapsto> True, 3 \<mapsto> False]"
       and pre = "[]" and role = role_everyone and post = "[role_R3, role_R2, role_R1]"
       and allow = True]
  by (simp add: example_defs bot_owner_ids_def command_name_def map_member_to_ACLevel_def Let_def)

text \<open>
  C1. In a guild, the stages are consulted in the order user, channel, role, level. When the
  actor's level is \<open>BOT_OWNER\<close> no stage is consulted. Otherwise a user overwrite decides and
  is the only stage consulted; without one, a channel overwrite decides after the user and
  channel stages; without that, the first role overwrite in the order of the actor's roles
  decides after the user and channel stages and the role lookups up to that role; without any,
  the level comparison decides. The stage that decides is the last one consulted, so what the
  tables of the later stages hold for the command, allow or deny, has no effect on the result.
  (When resolving the actor's level raises, the evaluation raises the same and no stage is
  consulted.)
\<close>

theorem acl2_stage_precedence:
  fixes db :: Database and ctx :: Context and level :: ACLevel
    and for_command :: "string option" and g :: Guild
    and command :: string and required :: ACLevel
    and resolved :: "error + ACLevel"
    and uo co :: "bool option" and ro :: "Role option"
    and stages :: "stage list" and result :: "error + bool"
  defines "command \<equiv> command_name ctx for_command"
    and "resolved \<equiv> snd (map_member_to_ACLevel db (ctx_bot ctx) (ctx_author ctx))"
    and "uo \<equiv> UserOverwrite_get db (guild_id g) (member_id (ctx_author ctx)) command"
    and "co \<equiv> ChannelOverwrite_get db (guild_id g) (channel_id (ctx_channel ctx)) command"
    and "ro \<equiv> find (has_role_overwrite db (guild_id g) command) (roles (ctx_author ctx))"
    and "required \<equiv> effective_level db (guild_id g) command level"
    and "stages \<equiv> stages_consulted (fst (acl2_function db ctx level for_command))"
    and "result \<equiv> snd (acl2_function db ctx level for_command)"
  assumes guild: "ctx_guild ctx = Some g"
  shows
    "sorted (map stage_rank stages) \<and>
     (\<forall>e. resolved = Inl e \<longrightarrow> stages = [] \<and> result = Inl e) \<and>
     (resolved = Inr BOT_OWNER \<longrightarrow> stages = [] \<and> result = Inr True) \<and>
     (\<forall>member_level. resolved = Inr member_level \<and> member_level \<noteq> BOT_OWNER \<longrightarrow>
        (\<forall>allow. uo = Some allow \<longrightarrow>
           stages = [User_stage] \<and>
           result = (if allow then Inr True else Inl NegativeUserOverwrite)) \<and>
        (\<forall>allow. uo = None \<and> co = Some allow \<longrightarrow>
           stages = [User_stage, Channel_stage] \<and>
           result = (if allow then Inr True
                     else Inl (NegativeChannelOverwrite (ctx_channel ctx)))) \<and>
        (\<forall>role allow.
           uo = None \<and> co = None \<and> ro = Some role \<and>
           RoleOverwrite_get db (guild_id g) (role_id role) command = Some allow \<longrightarrow>
           stages = User_stage # Channel_stage #
             replicate
               (Suc (length (takeWhile (\<lambda>r. \<not> has_role_overwrite db (guild_id g) command r)
                               (roles (ctx_author ctx)))))
               Role_stage \<and>
           result = (if allow then Inr True else Inl (NegativeRoleOverwrite role))) \<and>
        (uo = None \<and> co = None \<and> ro = None \<longrightarrow>
           stages = User_stage # Channel_stage #
             replicate (length (roles (ctx_author ctx))) Role_stage @ [Level_stage] \<and>
           result = (if level_value required \<le> level_value member_level then Inr True
                     else Inl (InsufficientACLevel required member_level))))"
proof -
  have raised: "stages = [] \<and> result = Inl e" if "resolved = Inl e" for e
    using acl2_member_error [OF guild that [unfolded resolved_def], of level for_command]
    by (simp add: stages_def result_def map_member_stages)
  have owner: "stages = [] \<and> result = Inr True" if "resolved = Inr BOT_OWNER"
    using acl2_bot_owner_level [OF guild that [unfolded resolved_def], of level for_command]
    by (simp add: stages_def result_def map_member_stages)
  have user: "stages = [User_stage] \<and>
      result = (if allow then Inr True else Inl NegativeUserOverwrite)"
    if "resolved = Inr member_level" "member_level \<noteq> BOT_OWNER" "uo = Some allow"
    for member_level allow
    using acl2_user_overwrite
      [OF guild that(1) [unfolded resolved_def] that(2) that(3) [unfolded uo_def command_def],
         of level]
    by (simp add: stages_def result_def map_member_stages)
  have channel: "stages = [User_stage, Channel_stage] \<and>
      result = (if allow then Inr True else Inl (NegativeChannelOverwrite (ctx_channel ctx)))"
    if "resolved = Inr member_level" "member_level \<noteq> BOT_OWNER" "uo = None" "co = Some allow"
    for member_level allow
    using acl2_channel_overwrite
      [OF guild that(1) [unfolded resolved_def] that(2) that(3) [unfolded uo_def command_def]
         that(4) [unfolded co_def command_def], of level]
    by (simp add: stages_def result_def map_member_stages)
  have role: "stages = User_stage # Channel_stage #
        replicate
          (Suc (length (takeWhile (\<lambda>r. \<not> has_role_overwrite db (guild_id g) command r)
                          (roles (ctx_author ctx)))))
          Role_stage \<and>
      result = (if allow then Inr True else Inl (NegativeRoleOverwrite role))"
    if "resolved = Inr member_level" "member_level \<noteq> BOT_OWNER" "uo = None" "co = None"
      "ro = Some role" "RoleOverwrite_get db (guild_id g) (role_id role) command = Some allow"
    for member_level role allow
    using acl2_role_overwrite
      [OF guild that(1) [unfolded resolved_def] that(2) that(3) [unfolded uo_def command_def]
         that(4) [unfolded co_def command_def]
         role_loop_find_Some [OF that(5) [unfolded ro_def command_def]
           that(6) [unfolded command_def]], of level]
    by (simp add: stages_def result_def map_member_stages stages_role_lookups command_def
        replicate_append_same)
  have compare: "stages = User_stage # Channel_stage #
        replicate (length (roles (ctx_author ctx))) Role_stage @ [Level_stage] \<and>
      result = (if level_value required \<le> level_value member_level then Inr True
                else Inl (InsufficientACLevel required member_level))"
    if "resolved = Inr member_level" "member_level \<noteq> BOT_OWNER" "uo = None" "co = None"
      "ro = None"
    for member_level
    using acl2_level_comparison
      [OF guild that(1) [unfolded resolved_def] that(2) that(3) [unfolded uo_def command_def]
         that(4) [unfolded co_def command_def]
         role_loop_find_None [OF that(5) [unfolded ro_def command_def]], of level]
    by (simp add: stages_def result_def map_member_stages stages_role_lookups
        required_def command_def)
  have order: "sorted (map stage_rank stages)"
  proof (cases resolved)
    case (Inl e)
    from raised [OF Inl] show ?thesis by simp
  next
    case (Inr member_level)
    show ?thesis
    proof (cases "member_level = BOT_OWNER")
      case True
      with Inr owner show ?thesis by simp
    next
      case nbo: False
      show ?thesis
      proof (cases uo)
        case (Some allow)
        from user [OF Inr nbo Some] show ?thesis by simp
      next
        case no_uo: None
        show ?thesis
        proof (cases co)
          case (Some allow)
          from channel [OF Inr nbo no_uo Some] show ?thesis by simp
        next
          case no_co: None
          show ?thesis
          proof (cases ro)
            case None
            from compare [OF Inr nbo no_uo no_co None] show ?thesis
              using sorted_role_stages(2) by simp
          next
            case (Some role)
            from find_has_role_overwrite [OF Some [unfolded ro_def]] obtain allow where
              "RoleOverwrite_get db (guild_id g) (role_id role) command = Some allow" ..
            from role [OF Inr nbo no_uo no_co Some this] show ?thesis
              using sorted_role_stages(1) by simp
          qed
        qed
      qed
    qed
  qed
  from order raised owner user channel role compare show ?thesis by blast
qed

text \<open>
  A denial at the user, channel and role stage, each with allowing conditions at all later
  stages; an allowance at each of these stages, each with denying conditions at all later
  stages; and an evaluation that goes through all four stages.
\<close>

theorem acl2_stage_precedence_witness:
  "snd (acl2_function (tables [1 \<mapsto> MOD] None [200 \<mapsto> False] (Some True) [1 \<mapsto> True])
     (invocation (Some a_guild) (member_of 200 [role_everyone, role_R1])) EVERYONE None) =
     Inl NegativeUserOverwrite \<and>
   snd (acl2_function (tables Map.empty None [200 \<mapsto> True] (Some False) [1 \<mapsto> False])
     (invocation (Some a_guild) (member_of 200 [role_everyone, role_R1])) MOD None) =
     Inr True \<and>
   snd (acl2_function (tables [1 \<mapsto> MOD] None Map.empty (Some False) [1 \<mapsto> True])
     (invocation (Some a_guild) (member_of 200 [role_everyone, role_R1])) EVERYONE None) =
     Inl (NegativeChannelOverwrite a_channel) \<and>
   snd (acl2_function (tables Map.empty None Map.empty (Some True) [1 \<mapsto> False])
     (invocation (Some a_guild) (member_of 200 [role_everyone, role_R1])) MOD None) =
     Inr True \<and>
   snd (acl2_function (tables [1 \<mapsto> MOD] None Map.empty None [1 \<mapsto> False])
     (invocation (Some a_guild) (member_of 200 [role_everyone, role_R1])) EVERYONE None) =
     Inl (NegativeRoleOverwrite role_R1) \<and>
   snd (acl2_function (tables Map.empty None Map.empty None [1 \<mapsto> True])
     (invocation (Some a_guild) (member_of 200 [role_everyone, role_R1])) MOD None) =
     Inr True \<and>
   stages_consulted (fst (acl2_function (tables Map.empty None Map.empty None Map.empty)
     (invocation (Some a_guild) (member_of 200 [role_everyone, role_R1])) MOD None)) =
     [User_stage, Channel_stage, Role_stage, Role_stage, Level_stage]"
  using
    acl2_stage_precedence
    [where ctx = "invocation (Some a_guild) (member_of 200 [role_everyone, role_R1])"
       and g = a_guild and for_command = None and level = EVERYONE
       and db = "tables [1 \<mapsto> MOD] None [200 \<mapsto> False] (Some True) [1 \<mapsto> True]"]
    acl2_stage_precedence
    [where ctx = "invocation (Some a_guild) (member_of 200 [role_everyone, role_R1])"
       and g = a_guild and for_command = None and level = MOD
       and db = "tables Map.empty None [200 \<mapsto> True] (Some False) [1 \<mapsto> False]"]
    acl2_stage_precedence
    [where ctx = "invocation (Some a_guild) (member_of 200 [role_everyone, role_R1])"
       and g = a_guild and for_command = None and level = EVERYONE
       and db = "tables [1 \<mapsto> MOD] None Map.empty (Some False) [1 \<mapsto> True]"]
    acl2_stage_precedence
    [where ctx = "invocation (Some a_guild) (member_of 200 [role_everyone, role_R1])"
       and g = a_guild and for_command = None and level = MOD
       and db = "tables Map.empty None Map.empty (Some True) [1 \<mapsto> False]"]
    acl2_stage_precedence
    [where ctx = "invocation (Some a_guild) (member_of 200 [role_everyone, role_R1])"
       and g = a_guild and for_command = None and level = EVERYONE
       and db = "tables [1 \<mapsto> MOD] None Map.empty None [1 \<mapsto> False]"]
    acl2_stage_precedence
    [where ctx = "invocation (Some a_guild) (member_of 200 [role_everyone, role_R1])"
       and g = a_guild and for_command = None and level = MOD
       and db = "tables Map.empty None Map.empty None [1 \<mapsto> True]"]
    acl2_stage_precedence
    [where ctx = "invocation (Some a_guild) (member_of 200 [role_everyone, role_R1])"
       and g = a_guild and for_command = None and level = MOD
       and db = "tables Map.empty None Map.empty None Map.empty"]
  by (simp add: example_defs bot_owner_ids_def command_name_def map_member_to_ACLevel_def
      acl2_function_def has_role_overwrite_def effective_level_def Let_def)

text \<open>
  C9. In a guild, the evaluation skips the overwrite stages exactly when the actor's level is
  \<open>BOT_OWNER\<close>. \<open>GUILD_OWNER\<close> is at least every level other than \<open>BOT_OWNER\<close>, and still
  the owner of the guild (who is not an owner of the bot) is mapped to \<open>GUILD_OWNER\<close> and is
  refused by a negative user overwrite, by a negative channel overwrite when there is no user
  overwrite, and by a negative overwrite of the first of their roles that has one when there
  is neither a user nor a channel overwrite.
\<close>

theorem guild_owner_overwrites_apply:
  assumes "ctx_guild ctx = Some g"
  shows
    "(\<forall>member_level.
        snd (map_member_to_ACLevel db (ctx_bot ctx) (ctx_author ctx)) = Inr member_level \<longrightarrow>
        (stages_consulted (fst (acl2_function db ctx level for_command)) = [] \<longleftrightarrow>
           member_level = BOT_OWNER)) \<and>
     (\<forall>l. l \<noteq> BOT_OWNER \<longrightarrow> level_value l \<le> level_value GUILD_OWNER) \<and>
     (owner_ids (ctx_bot ctx) \<noteq> Attribute_None \<and>
      member_id (ctx_author ctx) \<notin> bot_owner_ids (ctx_bot ctx) \<and>
      guild_owner (member_guild (ctx_author ctx)) = Some (member_id (ctx_author ctx)) \<longrightarrow>
        snd (map_member_to_ACLevel db (ctx_bot ctx) (ctx_author ctx)) = Inr GUILD_OWNER \<and>
        (UserOverwrite_get db (guild_id g) (member_id (ctx_author ctx))
           (command_name ctx for_command) = Some False \<longrightarrow>
         snd (acl2_function db ctx level for_command) = Inl NegativeUserOverwrite) \<and>
        (UserOverwrite_get db (guild_id g) (member_id (ctx_author ctx))
           (command_name ctx for_command) = None \<and>
         ChannelOverwrite_get db (guild_id g) (channel_id (ctx_channel ctx))
           (command_name ctx for_command) = Some False \<longrightarrow>
         snd (acl2_function db ctx level for_command) =
           Inl (NegativeChannelOverwrite (ctx_channel ctx))) \<and>
        (\<forall>pre role post.
           UserOverwrite_get db (guild_id g) (member_id (ctx_author ctx))
             (command_name ctx for_command) = None \<and>
           ChannelOverwrite_get db (guild_id g) (channel_id (ctx_channel ctx))
             (command_name ctx for_command) = None \<and>
           roles (ctx_author ctx) = pre @ role # post \<and>
           (\<forall>r \<in> set pre.
              RoleOverwrite_get db (guild_id g) (role_id r) (command_name ctx for_command)
                = None) \<and>
           RoleOverwrite_get db (guild_id g) (role_id role) (command_name ctx for_command)
             = Some False \<longrightarrow>
           snd (acl2_function db ctx level for_command) = Inl (NegativeRoleOverwrite role)))"
proof -
  let ?res = "snd (map_member_to_ACLevel db (ctx_bot ctx) (ctx_author ctx))"
  let ?cmd = "command_name ctx for_command"
  have short: "stages_consulted (fst (acl2_function db ctx level for_command)) = [] \<longleftrightarrow>
      member_level = BOT_OWNER" if res: "?res = Inr member_level" for member_level
  proof (cases "member_level = BOT_OWNER")
    case True
    from acl2_bot_owner_level [OF assms res [unfolded True], of level for_command] True
    show ?thesis
      by (simp add: map_member_stages)
  next
    case False
    from acl2_consults_user [OF assms res False, of level for_command] False show ?thesis
      by auto
  qed
  have top: "\<forall>l. l \<noteq> BOT_OWNER \<longrightarrow> level_value l \<le> level_value GUILD_OWNER"
    using level_value_le_GUILD_OWNER by blast
  have owner: "?res = Inr GUILD_OWNER \<and>
        (UserOverwrite_get db (guild_id g) (member_id (ctx_author ctx)) ?cmd = Some False \<longrightarrow>
         snd (acl2_function db ctx level for_command) = Inl NegativeUserOverwrite) \<and>
        (UserOverwrite_get db (guild_id g) (member_id (ctx_author ctx)) ?cmd = None \<and>
         ChannelOverwrite_get db (guild_id g) (channel_id (ctx_channel ctx)) ?cmd
           = Some False \<longrightarrow>
         snd (acl2_function db ctx level for_command) =
           Inl (NegativeChannelOverwrite (ctx_channel ctx))) \<and>
        (\<forall>pre role post.
           UserOverwrite_get db (guild_id g) (member_id (ctx_author ctx)) ?cmd = None \<and>
           ChannelOverwrite_get db (guild_id g) (channel_id (ctx_channel ctx)) ?cmd = None \<and>
           roles (ctx_author ctx) = pre @ role # post \<and>
           (\<forall>r \<in> set pre. RoleOverwrite_get db (guild_id g) (role_id r) ?cmd = None) \<and>
           RoleOverwrite_get db (guild_id g) (role_id role) ?cmd = Some False \<longrightarrow>
           snd (acl2_function db ctx level for_command) = Inl (NegativeRoleOverwrite role))"
    if ids: "owner_ids (ctx_bot ctx) \<noteq> Attribute_None"
      and nb: "member_id (ctx_author ctx) \<notin> bot_owner_ids (ctx_bot ctx)"
      and go: "guild_owner (member_guild (ctx_author ctx)) = Some (member_id (ctx_author ctx))"
  proof -
    have lvl: "?res = Inr GUILD_OWNER"
      using ids nb go by (simp add: map_member_guild_owner)
    have nbo: "GUILD_OWNER \<noteq> BOT_OWNER" by simp
    have u: "snd (acl2_function db ctx level for_command) = Inl NegativeUserOverwrite"
      if "UserOverwrite_get db (guild_id g) (member_id (ctx_author ctx)) ?cmd = Some False"
      using acl2_user_overwrite [OF assms lvl nbo that, of level] by simp
    have c: "snd (acl2_function db ctx level for_command) =
           Inl (NegativeChannelOverwrite (ctx_channel ctx))"
      if "UserOverwrite_get db (guild_id g) (member_id (ctx_author ctx)) ?cmd = None"
        "ChannelOverwrite_get db (guild_id g) (channel_id (ctx_channel ctx)) ?cmd = Some False"
      using acl2_channel_overwrite [OF assms lvl nbo that, of level] by simp
    have r: "snd (acl2_function db ctx level for_command) = Inl (NegativeRoleOverwrite role)"
      if "UserOverwrite_get db (guild_id g) (member_id (ctx_author ctx)) ?cmd = None"
        "ChannelOverwrite_get db (guild_id g) (channel_id (ctx_channel ctx)) ?cmd = None"
        "roles (ctx_author ctx) = pre @ role # post"
        "\<forall>r \<in> set pre. RoleOverwrite_get db (guild_id g) (role_id r) ?cmd = None"
        "RoleOverwrite_get db (guild_id g) (role_id role) ?cmd = Some False"
      for pre role post
    proof -
      have "role_loop db (guild_id g) ?cmd (roles (ctx_author ctx)) =
         (map (\<lambda>r. RoleOverwrite_lookup (guild_id g) (role_id r) ?cmd) (pre @ [role]),
          Some (if False then Inr True else Inl (NegativeRoleOverwrite role)))"
        unfolding that(3) using that(4,5) by (rule role_loop_first)
      from acl2_role_overwrite [OF assms lvl nbo that(1,2) this, of level] show ?thesis by simp
    qed
    from lvl u c r show ?thesis by blast
  qed
  from short top owner show ?thesis by blast
qed

text \<open>The owner of the guild against a negative user, channel and role overwrite in turn.\<close>

theorem guild_owner_overwrites_apply_witness:
  "snd (map_member_to_ACLevel (tables Map.empty None [100 \<mapsto> False] None Map.empty) a_bot
          (member_of 100 [role_everyone, role_R1])) = Inr GUILD_OWNER \<and>
   level_value MOD \<le> level_value GUILD_OWNER \<and>
   acl2_function (tables Map.empty None [100 \<mapsto> False] None Map.empty)
     (invocation (Some a_guild) (member_of 100 [role_everyone, role_R1])) MOD None =
     ([ACDefault_lookup 10 ''repeat'', UserOverwrite_lookup 10 100 ''repeat''],
      Inl NegativeUserOverwrite) \<and>
   snd (acl2_function (tables Map.empty None Map.empty (Some False) Map.empty)
     (invocation (Some a_guild) (member_of 100 [role_everyone, role_R1])) MOD None) =
     Inl (NegativeChannelOverwrite a_channel) \<and>
   snd (acl2_function (tables Map.empty None Map.empty None [1 \<mapsto> False])
     (invocation (Some a_guild) (member_of 100 [role_everyone, role_R1])) MOD None) =
     Inl (NegativeRoleOverwrite role_R1)"
  using guild_owner_overwrites_apply
    [of "invocation (Some a_guild) (member_of 100 [role_everyone, role_R1])" a_guild
        "tables Map.empty None [100 \<mapsto> False] None Map.empty" MOD None]
    guild_owner_overwrites_apply
    [of "invocation (Some a_guild) (member_of 100 [role_everyone, role_R1])" a_guild
        "tables Map.empty None Map.empty (Some False) Map.empty" MOD None]
    guild_owner_overwrites_apply
    [of "invocation (Some a_guild) (member_of 100 [role_everyone, role_R1])" a_guild
        "tables Map.empty None Map.empty None [1 \<mapsto> False]" MOD None]
  by (simp add: example_defs bot_owner_ids_def command_name_def map_member_to_ACLevel_def
      acl2_function_def Let_def)

end
